theory Spec2Isabelle
  imports Main
begin

section \<open>Python values and the library calls of \<open>mqtt_app.py\<close>\<close>

text \<open>
  The values the Device Data Source hands out are decoded JSON: \<open>None\<close>, booleans,
  integers, floats, strings, lists and dictionaries with string keys. A float is only
  ever passed on and serialised, never computed with, so it is carried by the text
  \<open>repr\<close> gives for it. A dictionary keeps its insertion order. Strings are lists of
  code points below 256.
\<close>

datatype pyval =
    PNone
  | PBool bool
  | PInt int
  | PFloat string
  | PStr string
  | PList "pyval list"
  | PDict "(string \<times> pyval) list"

text \<open>
  An instance of Python's \<open>Exception\<close>: its class name and the text \<open>str(ex)\<close>
  yields. Interpreter exits (\<open>KeyboardInterrupt\<close>, \<open>SystemExit\<close>) are not
  instances of \<open>Exception\<close> and are outside the model.
\<close>

datatype exn = Exn (exn_class: string) (exn_msg: string)

definition type_name :: "pyval \<Rightarrow> string" where
  "type_name v =
     (case v of PNone \<Rightarrow> ''NoneType'' | PBool _ \<Rightarrow> ''bool'' | PInt _ \<Rightarrow> ''int''
      | PFloat _ \<Rightarrow> ''float'' | PStr _ \<Rightarrow> ''str'' | PList _ \<Rightarrow> ''list''
      | PDict _ \<Rightarrow> ''dict'')"

definition no_attribute :: "pyval \<Rightarrow> string \<Rightarrow> exn" where
  "no_attribute v a =
     Exn ''AttributeError''
       ([CHR 0x27] @ type_name v @ [CHR 0x27] @ '' object has no attribute '' @
        [CHR 0x27] @ a @ [CHR 0x27])"

text \<open>
  \<open>obj.get(key, default)\<close>: a dictionary answers with the value stored under the
  key, or with the default; every other value of the model has no \<open>get\<close> attribute
  and the call raises \<open>AttributeError\<close>.
\<close>

definition py_get :: "pyval \<Rightarrow> string \<Rightarrow> pyval \<Rightarrow> exn + pyval" where
  "py_get obj k dflt =
     (case obj of
        PDict kvs \<Rightarrow> (case map_of kvs k of Some v \<Rightarrow> Inr v | None \<Rightarrow> Inr dflt)
      | _ \<Rightarrow> Inl (no_attribute obj ''get''))"

subsection \<open>\<open>json.dumps\<close> with its default arguments\<close>

definition digit_chars :: string where
  "digit_chars = ''0123456789abcdef''"

function show_nat :: "nat \<Rightarrow> string" where
  "show_nat n =
     (if n < 10 then [digit_chars ! n] else show_nat (n div 10) @ [digit_chars ! (n mod 10)])"
  by pat_completeness auto
termination
  by (relation "measure id") auto

definition show_int :: "int \<Rightarrow> string" where
  "show_int i = (if i < 0 then CHR ''-'' # show_nat (nat (- i)) else show_nat (nat i))"

text \<open>
  \<open>json.encoder.py_encode_basestring_ascii\<close>: the backslash and the double quote
  are escaped, the printable ASCII characters from the space to the tilde stand for
  themselves, five control characters have a short escape and every other code point
  is written \<open>\u00XX\<close>.
\<close>

definition json_escape :: "char \<Rightarrow> string" where
  "json_escape c =
     (let n = (of_char c :: nat) in
      if c = CHR 0x5C then [CHR 0x5C, CHR 0x5C]
      else if c = CHR 0x22 then [CHR 0x5C, CHR 0x22]
      else if 0x20 \<le> n \<and> n \<le> 0x7E then [c]
      else if c = CHR 0x08 then [CHR 0x5C, CHR ''b'']
      else if c = CHR 0x0C then [CHR 0x5C, CHR ''f'']
      else if c = CHR 0x0A then [CHR 0x5C, CHR ''n'']
      else if c = CHR 0x0D then [CHR 0x5C, CHR ''r'']
      else if c = CHR 0x09 then [CHR 0x5C, CHR ''t'']
      else [CHR 0x5C, CHR ''u'', CHR ''0'', CHR ''0'',
            digit_chars ! (n div 16), digit_chars ! (n mod 16)])"

definition json_string :: "string \<Rightarrow> string" where
  "json_string s = [CHR 0x22] @ concat (map json_escape s) @ [CHR 0x22]"

text \<open>
  A finite float is written as its \<open>repr\<close>; the three non-finite ones have names of
  their own in \<open>json.dumps\<close> (\<open>allow_nan\<close> is on by default).
\<close>

definition json_float :: "string \<Rightarrow> string" where
  "json_float r =
     (if r = ''nan'' then ''NaN''
      else if r = ''inf'' then ''Infinity''
      else if r = ''-inf'' then ''-Infinity''
      else r)"

fun join_items :: "string list \<Rightarrow> string" where
  "join_items [] = []"
| "join_items [x] = x"
| "join_items (x # y # ys) = x @ '', '' @ join_items (y # ys)"

fun json_dumps :: "pyval \<Rightarrow> string" where
  "json_dumps PNone = ''null''"
| "json_dumps (PBool b) = (if b then ''true'' else ''false'')"
| "json_dumps (PInt i) = show_int i"
| "json_dumps (PFloat r) = json_float r"
| "json_dumps (PStr s) = json_string s"
| "json_dumps (PList xs) = ''['' @ join_items (map json_dumps xs) @ '']''"
| "json_dumps (PDict kvs) =
     ''{'' @ join_items (map (\<lambda>(k, v). json_string k @ '': '' @ json_dumps v) kvs) @ ''}''"

text \<open>\<open>paho.mqtt.client.connack_string\<close>: the text of a CONNACK result code.\<close>

definition CONNACK_ACCEPTED :: int where
  "CONNACK_ACCEPTED = 0"

definition connack_string :: "int \<Rightarrow> string" where
  "connack_string rc =
     (if rc = CONNACK_ACCEPTED then ''Connection Accepted.''
      else if rc = 1 then ''Connection Refused: unacceptable protocol version.''
      else if rc = 2 then ''Connection Refused: identifier rejected.''
      else if rc = 3 then ''Connection Refused: broker unavailable.''
      else if rc = 4 then ''Connection Refused: bad user name or password.''
      else if rc = 5 then ''Connection Refused: not authorised.''
      else ''Connection Refused: unknown reason.'')"

section \<open>Configuration, effects and the environment\<close>

text \<open>
  The module \<open>settings\<close> holds the broker endpoint, the QoS level and the three
  topic names; its values are a parameter of every function below.
\<close>

record settings =
  MQTT_SERVER :: string
  MQTT_PORT :: int
  MQTT_CLIENT_ID :: string
  MQTT_QOS :: int
  GPS_TOPIC :: string
  MODEM_TEMP_TOPIC :: string
  WAN_CONNECTION_STATE_TOPIC :: string

datatype level = Debug | Error

text \<open>
  What the app does to the outside world, in the order it does it: a log line, a
  \<open>client.subscribe(topics)\<close> call, a \<open>publish.single\<close> call (topic, payload,
  qos, hostname, port), a \<open>publish.multiple\<close> call (messages of topic, payload, qos
  and retain flag; hostname and port) and a \<open>time.sleep\<close> of so many seconds. A call
  is recorded when it is made, whether or not it then raises.
\<close>

datatype event =
    Log level string
  | Subscribe "(string \<times> int) list"
  | PublishSingle string string int string int
  | PublishMultiple "(string \<times> pyval \<times> int \<times> bool) list" string int
  | Sleep nat

text \<open>
  What one publish cycle meets: the answer of \<open>cs.CSClient().get(key)\<close> for each
  key (a value, possibly \<open>None\<close>, or an exception), and whether the two publish
  calls raise (a network failure, a payload the client refuses).
\<close>

record cycle_env =
  cs_get :: "string \<Rightarrow> exn + pyval"
  single_raises :: "exn option"
  multiple_raises :: "exn option"

section \<open>The connect handler\<close>

text \<open>
  \<open>on_connect(client, userdata, flags, rc)\<close>. The subscribe call either returns
  or raises \<open>sub_raises\<close>. The result is the trace of effects and the exception that
  leaves the handler, if any.
\<close>

definition on_connect :: "settings \<Rightarrow> exn option \<Rightarrow> int \<Rightarrow> event list \<times> exn option" where
  "on_connect s sub_raises rc =
     (let ev_log = Log Debug (''MQTT Client connection results: '' @ connack_string rc);
          topics = [(GPS_TOPIC s, MQTT_QOS s),
                    (MODEM_TEMP_TOPIC s, MQTT_QOS s),
                    (WAN_CONNECTION_STATE_TOPIC s, MQTT_QOS s)]
      in case sub_raises of
           None \<Rightarrow> ([ev_log, Subscribe topics], None)
         | Some ex \<Rightarrow>
             ([ev_log, Subscribe topics,
               Log Error (''Client Subscribe exception. ex='' @ exn_msg ex)], None))"

section \<open>The publisher loop\<close>

text \<open>
  Statements run in sequence until one raises: \<open>after tr r k\<close> carries on with
  the value of \<open>r\<close>, or stops with the trace \<open>tr\<close> made so far and the exception
  \<open>r\<close> raised. \<open>returned\<close> is the result of a call that yields nothing.
\<close>

definition after ::
  "event list \<Rightarrow> exn + 'a \<Rightarrow> ('a \<Rightarrow> event list \<times> (exn + unit)) \<Rightarrow> event list \<times> (exn + unit)" where
  "after tr r k = (case r of Inl ex \<Rightarrow> (tr, Inl ex) | Inr v \<Rightarrow> k v)"

definition returned :: "exn option \<Rightarrow> exn + unit" where
  "returned raises = (case raises of Some ex \<Rightarrow> Inl ex | None \<Rightarrow> Inr ())"

text \<open>
  The body of the \<open>try\<close> in \<open>publish_thread\<close>, statement by statement. The
  result is the trace up to the point reached and either the exception raised there
  or \<open>()\<close> when the body ran to its end.
\<close>

definition try_body :: "settings \<Rightarrow> cycle_env \<Rightarrow> event list \<times> (exn + unit)" where
  "try_body s env =
     after [] (cs_get env (GPS_TOPIC s)) (\<lambda>gps_resp.
     after [] (py_get gps_resp ''data'' PNone) (\<lambda>gps_lastpos.
     after [] (py_get gps_lastpos ''longitude'' PNone) (\<lambda>lon.
     after [] (py_get gps_lastpos ''latitude'' PNone) (\<lambda>lat.
     let gps_pos = PDict [(''logitude'', lon), (''latitude'', lat)];
         single = PublishSingle (GPS_TOPIC s) (json_dumps gps_pos) (MQTT_QOS s)
                    (MQTT_SERVER s) (MQTT_PORT s)
     in
     after [single] (returned (single_raises env)) (\<lambda>_.
     after [single] (cs_get env (MODEM_TEMP_TOPIC s)) (\<lambda>temp_resp.
     after [single] (py_get temp_resp ''data'' (PStr '''')) (\<lambda>modem_temp.
     after [single] (cs_get env (WAN_CONNECTION_STATE_TOPIC s)) (\<lambda>wan_resp.
     after [single] (py_get wan_resp ''data'' PNone) (\<lambda>wan_connection_state.
     let msgs = [(MODEM_TEMP_TOPIC s, modem_temp, MQTT_QOS s, False),
                 (WAN_CONNECTION_STATE_TOPIC s, wan_connection_state, MQTT_QOS s, False)];
         multiple = PublishMultiple msgs (MQTT_SERVER s) (MQTT_PORT s)
     in
     after [single, multiple] (returned (multiple_raises env)) (\<lambda>_.
     ([single, multiple, Sleep 10], Inr ())))))))))))"

text \<open>
  One iteration of \<open>while True\<close>: the \<open>try\<close> body, and the handler
  \<open>except Exception as ex\<close> when the body raised. The second component is the
  exception that leaves the iteration, if any.
\<close>

definition publish_cycle :: "settings \<Rightarrow> cycle_env \<Rightarrow> event list \<times> exn option" where
  "publish_cycle s env =
     (case try_body s env of
        (tr, Inr _) \<Rightarrow> (tr, None)
      | (tr, Inl ex) \<Rightarrow>
          (tr @ [Log Error (''Exception in send_gps(). ex: '' @ exn_msg ex)], None))"

text \<open>
  \<open>while True\<close> never leaves by itself, so the loop is run for a given number of
  iterations: \<open>while_true s envs i n\<close> runs the iterations \<open>i\<close>, ..., \<open>i + n - 1\<close>,
  the \<open>k\<close>-th of them in the environment \<open>envs k\<close>, and stops early only when an
  exception leaves an iteration. It yields the trace of each iteration it started and
  the exception that left the loop, if any.
\<close>

fun while_true :: "settings \<Rightarrow> (nat \<Rightarrow> cycle_env) \<Rightarrow> nat \<Rightarrow> nat \<Rightarrow> event list list \<times> exn option" where
  "while_true s envs i 0 = ([], None)"
| "while_true s envs i (Suc n) =
     (case publish_cycle s (envs i) of
        (tr, Some ex) \<Rightarrow> ([tr], Some ex)
      | (tr, None) \<Rightarrow>
          (case while_true s envs (Suc i) n of (trs, r) \<Rightarrow> (tr # trs, r)))"

definition publish_thread :: "settings \<Rightarrow> (nat \<Rightarrow> cycle_env) \<Rightarrow> nat \<Rightarrow> event list \<times> exn option" where
  "publish_thread s envs n =
     (case while_true s envs 0 n of
        (trs, r) \<Rightarrow> (Log Debug ''Start publish_thread()'' # concat trs, r))"

section \<open>Reading a trace\<close>

text \<open>The topic lists of the subscribe calls of a trace, in order.\<close>

fun subscribes :: "event list \<Rightarrow> (string \<times> int) list list" where
  "subscribes [] = []"
| "subscribes (Subscribe topics # es) = topics # subscribes es"
| "subscribes (_ # es) = subscribes es"

text \<open>The \<open>publish.single\<close> calls of a trace: topic and payload.\<close>

fun single_publishes :: "event list \<Rightarrow> (string \<times> string) list" where
  "single_publishes [] = []"
| "single_publishes (PublishSingle topic payload qos host port # es) =
     (topic, payload) # single_publishes es"
| "single_publishes (_ # es) = single_publishes es"

text \<open>The \<open>publish.multiple\<close> calls of a trace: the message list of each.\<close>

fun batch_publishes :: "event list \<Rightarrow> (string \<times> pyval \<times> int \<times> bool) list list" where
  "batch_publishes [] = []"
| "batch_publishes (PublishMultiple msgs host port # es) = msgs # batch_publishes es"
| "batch_publishes (_ # es) = batch_publishes es"

text \<open>The seconds a trace spends in \<open>time.sleep\<close>.\<close>

fun slept :: "event list \<Rightarrow> nat" where
  "slept [] = 0"
| "slept (Sleep d # es) = d + slept es"
| "slept (_ # es) = slept es"

section \<open>A configuration and some environments\<close>

definition example_settings :: settings where
  "example_settings =
     \<lparr>MQTT_SERVER = ''test.mosquitto.org'', MQTT_PORT = 1883,
      MQTT_CLIENT_ID = ''router'', MQTT_QOS = 0,
      GPS_TOPIC = ''status/gps/lastpos'',
      MODEM_TEMP_TOPIC = ''status/system/modem_temperature'',
      WAN_CONNECTION_STATE_TOPIC = ''status/wan/connection_state''\<rparr>"

text \<open>
  A router with a GPS fix: every key answers with a \<open>data\<close> field, and the broker
  takes both publish calls.
\<close>

definition cs_get_fix :: "string \<Rightarrow> exn + pyval" where
  "cs_get_fix key =
     (if key = ''status/gps/lastpos'' then
        Inr (PDict [(''success'', PBool True),
                    (''data'', PDict [(''longitude'', PFloat ''-97.1''),
                                      (''latitude'', PFloat ''32.7'')])])
      else if key = ''status/system/modem_temperature'' then
        Inr (PDict [(''success'', PBool True), (''data'', PInt 41)])
      else if key = ''status/wan/connection_state'' then
        Inr (PDict [(''success'', PBool True), (''data'', PStr ''connected'')])
      else Inr PNone)"

definition env_fix :: cycle_env where
  "env_fix = \<lparr>cs_get = cs_get_fix, single_raises = None, multiple_raises = None\<rparr>"

text \<open>The data source answers \<open>None\<close> for every key.\<close>

definition cs_get_absent :: "string \<Rightarrow> exn + pyval" where
  "cs_get_absent key = Inr PNone"

definition env_absent :: cycle_env where
  "env_absent = \<lparr>cs_get = cs_get_absent, single_raises = None, multiple_raises = None\<rparr>"

definition always_absent :: "nat \<Rightarrow> cycle_env" where
  "always_absent i = env_absent"

text \<open>
  The GPS record is there but holds neither coordinate; the other two keys answer
  without a \<open>data\<close> field.
\<close>

definition cs_get_no_data :: "string \<Rightarrow> exn + pyval" where
  "cs_get_no_data key =
     (if key = ''status/gps/lastpos'' then
        Inr (PDict [(''success'', PBool True), (''data'', PDict [(''age'', PInt 3)])])
      else Inr (PDict [(''success'', PBool False)]))"

definition env_no_data :: cycle_env where
  "env_no_data = \<lparr>cs_get = cs_get_no_data, single_raises = None, multiple_raises = None\<rparr>"

text \<open>The GPS key answers as with a fix, every other key answers \<open>None\<close>.\<close>

definition cs_get_gps_only :: "string \<Rightarrow> exn + pyval" where
  "cs_get_gps_only key =
     (if key = ''status/gps/lastpos'' then cs_get_fix key else Inr PNone)"

definition env_gps_only :: cycle_env where
  "env_gps_only = \<lparr>cs_get = cs_get_gps_only, single_raises = None, multiple_raises = None\<rparr>"

definition always_gps_only :: "nat \<Rightarrow> cycle_env" where
  "always_gps_only i = env_gps_only"

text \<open>The data source answers \<open>None\<close> in the first cycle and has a fix from then on.\<close>

definition absent_then_fix :: "nat \<Rightarrow> cycle_env" where
  "absent_then_fix i = (if i = 0 then env_absent else env_fix)"

text \<open>
  A fix, a WAN state, but no \<open>data\<close> field in the answer for the modem
  temperature.
\<close>

definition cs_get_no_temp :: "string \<Rightarrow> exn + pyval" where
  "cs_get_no_temp key =
     (if key = ''status/system/modem_temperature'' then
        Inr (PDict [(''success'', PBool False)])
      else cs_get_fix key)"

definition env_no_temp :: cycle_env where
  "env_no_temp = \<lparr>cs_get = cs_get_no_temp, single_raises = None, multiple_raises = None\<rparr>"

section \<open>Facts about the model\<close>

lemma py_get_dict:
  "py_get (PDict kvs) k d = Inr (case map_of kvs k of Some x \<Rightarrow> x | None \<Rightarrow> d)"
  by (simp add: py_get_def split: option.splits)

lemma py_get_Inr:
  "py_get obj k d = Inr v \<Longrightarrow>
     \<exists>kvs. obj = PDict kvs \<and> v = (case map_of kvs k of Some x \<Rightarrow> x | None \<Rightarrow> d)"
  by (cases obj) (simp_all add: py_get_def split: option.splits)

text \<open>
  Lines 94 to 96 get through only when the answer for the GPS key is a dictionary
  whose \<open>data\<close> field is a dictionary again.
\<close>

lemma gps_read:
  assumes "py_get gps_resp ''data'' PNone = Inr gps_lastpos"
    and "py_get gps_lastpos ''longitude'' PNone = Inr lon"
  shows "\<exists>resp gps. gps_resp = PDict resp \<and> map_of resp ''data'' = Some (PDict gps)"
proof -
  from assms(2) obtain gps where g: "gps_lastpos = PDict gps"
    using py_get_Inr by blast
  from assms(1) obtain resp where r: "gps_resp = PDict resp"
    and v: "gps_lastpos = (case map_of resp ''data'' of Some x \<Rightarrow> x | None \<Rightarrow> PNone)"
    using py_get_Inr by blast
  from g v have "map_of resp ''data'' = Some (PDict gps)"
    by (cases "map_of resp ''data''") simp_all
  with r show ?thesis by blast
qed

lemma fst_publish_cycle:
  "fst (publish_cycle s env) =
     fst (try_body s env) @
     (case snd (try_body s env) of
        Inl ex \<Rightarrow> [Log Error (''Exception in send_gps(). ex: '' @ exn_msg ex)]
      | Inr _ \<Rightarrow> [])"
  by (simp add: publish_cycle_def split: prod.splits sum.splits)

lemma snd_publish_cycle: "snd (publish_cycle s env) = None"
  by (simp add: publish_cycle_def split: prod.splits sum.splits)

lemmas body_defs = fst_publish_cycle try_body_def after_def returned_def Let_def

lemmas run_defs = publish_cycle_def try_body_def after_def returned_def py_get_def

lemmas example_defs =
  example_settings_def env_fix_def cs_get_fix_def env_absent_def cs_get_absent_def
  env_no_data_def cs_get_no_data_def env_gps_only_def cs_get_gps_only_def
  json_string_def json_escape_def json_float_def no_attribute_def type_name_def
  connack_string_def CONNACK_ACCEPTED_def

text \<open>The loop runs every iteration it is given, and no exception leaves it.\<close>

lemma while_true_runs:
  "while_true s envs i n = (map (\<lambda>k. fst (publish_cycle s (envs k))) [i..<i + n], None)"
proof (induction n arbitrary: i)
  case 0
  show ?case by simp
next
  case (Suc n)
  have cyc: "publish_cycle s (envs i) = (fst (publish_cycle s (envs i)), None)"
    using snd_publish_cycle [of s "envs i"] by (metis prod.collapse)
  have "while_true s envs i (Suc n) =
          (fst (publish_cycle s (envs i)) #
           map (\<lambda>k. fst (publish_cycle s (envs k))) [Suc i..<Suc i + n], None)"
    using Suc.IH [of "Suc i"] by (subst while_true.simps, subst cyc) simp
  then show ?case by (simp add: upt_rec [of i])
qed

text \<open>
  An iteration sleeps its 10 seconds exactly when the \<open>try\<close> body ran to its end:
  \<open>time.sleep(10)\<close> is the last statement of the body, and the handler does not
  sleep.
\<close>

lemma slept_publish_cycle:
  "slept (fst (publish_cycle s env)) = (if snd (try_body s env) = Inr () then 10 else 0)"
  by (simp add: body_defs split: sum.splits option.splits)

section \<open>The GPS payload\<close>

text \<open>
  C1. When the data source answers the GPS key with a record that has the fields
  \<open>longitude\<close> and \<open>latitude\<close>, the cycle makes one single-shot publish, to the
  GPS topic, and its payload is the JSON text of the dictionary that holds the
  longitude under the key \<open>logitude\<close> (spelled so) and the latitude under
  \<open>latitude\<close>.
\<close>

theorem gps_payload_logitude_key:
  assumes "cs_get env (GPS_TOPIC s) = Inr (PDict resp)"
    and "map_of resp ''data'' = Some (PDict gps)"
    and "map_of gps ''longitude'' = Some lon"
    and "map_of gps ''latitude'' = Some lat"
  shows "single_publishes (fst (publish_cycle s env)) =
           [(GPS_TOPIC s, json_dumps (PDict [(''logitude'', lon), (''latitude'', lat)]))]"
  using assms
  by (auto simp: body_defs py_get_dict split: sum.splits option.splits)

text \<open>The reading \<open>{longitude: -97.1, latitude: 32.7}\<close> of the specification.\<close>

theorem gps_payload_logitude_key_witness:
  "cs_get env_fix (GPS_TOPIC example_settings) =
     Inr (PDict [(''success'', PBool True),
                 (''data'', PDict [(''longitude'', PFloat ''-97.1''),
                                   (''latitude'', PFloat ''32.7'')])])
   \<and> single_publishes (fst (publish_cycle example_settings env_fix)) =
     [(''status/gps/lastpos'', ''{\"logitude\": -97.1, \"latitude\": 32.7}'')]"
  using gps_payload_logitude_key [of env_fix example_settings
      "[(''success'', PBool True),
        (''data'', PDict [(''longitude'', PFloat ''-97.1''), (''latitude'', PFloat ''32.7'')])]"
      "[(''longitude'', PFloat ''-97.1''), (''latitude'', PFloat ''32.7'')]"
      "PFloat ''-97.1''" "PFloat ''32.7''"]
  by (simp add: example_defs)

text \<open>
  C10. When the GPS record is there but lacks \<open>longitude\<close> or \<open>latitude\<close>, building
  the payload does not raise: the single-shot publish is made, and its payload has
  \<open>null\<close> in the place of each missing field.
\<close>

theorem gps_missing_field_is_null:
  assumes "cs_get env (GPS_TOPIC s) = Inr (PDict resp)"
    and "map_of resp ''data'' = Some (PDict gps)"
    and "map_of gps ''longitude'' = None \<or> map_of gps ''latitude'' = None"
  shows "single_publishes (fst (publish_cycle s env)) =
           [(GPS_TOPIC s,
             ''{\"logitude\": '' @
             (case map_of gps ''longitude'' of None \<Rightarrow> ''null'' | Some v \<Rightarrow> json_dumps v) @
             '', \"latitude\": '' @
             (case map_of gps ''latitude'' of None \<Rightarrow> ''null'' | Some v \<Rightarrow> json_dumps v) @
             ''}'')]"
  using assms(1,2)
  by (auto simp: body_defs py_get_dict json_string_def json_escape_def
      split: sum.splits option.splits)

theorem gps_missing_field_is_null_witness:
  "cs_get env_no_data (GPS_TOPIC example_settings) =
     Inr (PDict [(''success'', PBool True), (''data'', PDict [(''age'', PInt 3)])])
   \<and> map_of [(''age'', PInt 3)] ''longitude'' = None
   \<and> single_publishes (fst (publish_cycle example_settings env_no_data)) =
     [(''status/gps/lastpos'', ''{\"logitude\": null, \"latitude\": null}'')]"
  using gps_missing_field_is_null [of env_no_data example_settings
      "[(''success'', PBool True), (''data'', PDict [(''age'', PInt 3)])]"
      "[(''age'', PInt 3)]"]
  by (simp add: example_defs)

section \<open>The batch publish\<close>

text \<open>
  A cycle whose trace holds a batch call got through both reads before it, and the
  call carries what they returned; it is the only batch call of the cycle, and the
  only single-shot call of the cycle is the one to the GPS topic.
\<close>

lemma batch_reached:
  assumes "PublishMultiple msgs host port \<in> set (fst (publish_cycle s env))"
  shows "\<exists>temp_resp modem_temp wan_resp wan payload.
           cs_get env (MODEM_TEMP_TOPIC s) = Inr temp_resp
           \<and> py_get temp_resp ''data'' (PStr '''') = Inr modem_temp
           \<and> cs_get env (WAN_CONNECTION_STATE_TOPIC s) = Inr wan_resp
           \<and> py_get wan_resp ''data'' PNone = Inr wan
           \<and> msgs = [(MODEM_TEMP_TOPIC s, modem_temp, MQTT_QOS s, False),
                      (WAN_CONNECTION_STATE_TOPIC s, wan, MQTT_QOS s, False)]
           \<and> host = MQTT_SERVER s \<and> port = MQTT_PORT s
           \<and> batch_publishes (fst (publish_cycle s env)) = [msgs]
           \<and> single_publishes (fst (publish_cycle s env)) = [(GPS_TOPIC s, payload)]"
  using assms
  by (auto simp: body_defs split: sum.splits option.splits)

text \<open>
  The trace of a cycle that gets as far as the batch step: the GPS key, the modem
  temperature key and the WAN key are each answered with a dictionary, the GPS one
  with a dictionary under \<open>data\<close>, and the GPS publish returns.
\<close>

lemma cycle_trace_to_batch:
  assumes "cs_get env (GPS_TOPIC s) = Inr (PDict resp)"
    and "map_of resp ''data'' = Some (PDict gps)"
    and "single_raises env = None"
    and "cs_get env (MODEM_TEMP_TOPIC s) = Inr (PDict temp_resp)"
    and "cs_get env (WAN_CONNECTION_STATE_TOPIC s) = Inr (PDict wan_resp)"
  shows "fst (publish_cycle s env) =
           [PublishSingle (GPS_TOPIC s)
              (json_dumps (PDict
                 [(''logitude'', case map_of gps ''longitude'' of None \<Rightarrow> PNone | Some v \<Rightarrow> v),
                  (''latitude'', case map_of gps ''latitude'' of None \<Rightarrow> PNone | Some v \<Rightarrow> v)]))
              (MQTT_QOS s) (MQTT_SERVER s) (MQTT_PORT s),
            PublishMultiple
              [(MODEM_TEMP_TOPIC s,
                (case map_of temp_resp ''data'' of None \<Rightarrow> PStr '''' | Some v \<Rightarrow> v),
                MQTT_QOS s, False),
               (WAN_CONNECTION_STATE_TOPIC s,
                (case map_of wan_resp ''data'' of None \<Rightarrow> PNone | Some v \<Rightarrow> v),
                MQTT_QOS s, False)]
              (MQTT_SERVER s) (MQTT_PORT s)]
           @ (case multiple_raises env of
                None \<Rightarrow> [Sleep 10]
              | Some ex \<Rightarrow> [Log Error (''Exception in send_gps(). ex: '' @ exn_msg ex)])"
  using assms
  by (simp add: body_defs py_get_dict split: option.splits)

text \<open>
  C6. A cycle that reaches the batch step publishes the modem temperature read on
  line 103 and the WAN connection state read on line 104 in one
  \<open>publish.multiple\<close> call of two messages, both with the retain flag \<open>False\<close>:
  the trace of the cycle is the GPS single-shot publish, then that one batch call,
  then the sleep (or the error line when the batch call raises), so neither value
  goes out through a publish call of its own. And wherever a batch call stands in
  the trace of a cycle, it is this call: its two messages carry the values the two
  reads returned, it is the only batch call of the cycle, and the only single-shot
  call of the cycle is the GPS one.
\<close>

theorem batch_single_call_not_retained:
  "(cs_get env (GPS_TOPIC s) = Inr (PDict resp)
      \<and> map_of resp ''data'' = Some (PDict gps)
      \<and> single_raises env = None
      \<and> cs_get env (MODEM_TEMP_TOPIC s) = Inr (PDict temp_resp)
      \<and> cs_get env (WAN_CONNECTION_STATE_TOPIC s) = Inr (PDict wan_resp)
    \<longrightarrow> fst (publish_cycle s env) =
          [PublishSingle (GPS_TOPIC s)
             (json_dumps (PDict
                [(''logitude'', case map_of gps ''longitude'' of None \<Rightarrow> PNone | Some v \<Rightarrow> v),
                 (''latitude'', case map_of gps ''latitude'' of None \<Rightarrow> PNone | Some v \<Rightarrow> v)]))
             (MQTT_QOS s) (MQTT_SERVER s) (MQTT_PORT s),
           PublishMultiple
             [(MODEM_TEMP_TOPIC s,
               (case map_of temp_resp ''data'' of None \<Rightarrow> PStr '''' | Some v \<Rightarrow> v),
               MQTT_QOS s, False),
              (WAN_CONNECTION_STATE_TOPIC s,
               (case map_of wan_resp ''data'' of None \<Rightarrow> PNone | Some v \<Rightarrow> v),
               MQTT_QOS s, False)]
             (MQTT_SERVER s) (MQTT_PORT s)]
          @ (case multiple_raises env of
               None \<Rightarrow> [Sleep 10]
             | Some ex \<Rightarrow> [Log Error (''Exception in send_gps(). ex: '' @ exn_msg ex)]))
   \<and> (PublishMultiple msgs host port \<in> set (fst (publish_cycle s env))
    \<longrightarrow> (\<exists>t w payload.
           cs_get env (MODEM_TEMP_TOPIC s) = Inr (PDict t)
           \<and> cs_get env (WAN_CONNECTION_STATE_TOPIC s) = Inr (PDict w)
           \<and> msgs = [(MODEM_TEMP_TOPIC s,
                       (case map_of t ''data'' of None \<Rightarrow> PStr '''' | Some v \<Rightarrow> v),
                       MQTT_QOS s, False),
                      (WAN_CONNECTION_STATE_TOPIC s,
                       (case map_of w ''data'' of None \<Rightarrow> PNone | Some v \<Rightarrow> v),
                       MQTT_QOS s, False)]
           \<and> host = MQTT_SERVER s \<and> port = MQTT_PORT s
           \<and> batch_publishes (fst (publish_cycle s env)) = [msgs]
           \<and> single_publishes (fst (publish_cycle s env)) = [(GPS_TOPIC s, payload)]))"
proof (intro conjI impI)
  assume "cs_get env (GPS_TOPIC s) = Inr (PDict resp)
      \<and> map_of resp ''data'' = Some (PDict gps)
      \<and> single_raises env = None
      \<and> cs_get env (MODEM_TEMP_TOPIC s) = Inr (PDict temp_resp)
      \<and> cs_get env (WAN_CONNECTION_STATE_TOPIC s) = Inr (PDict wan_resp)"
  then show "fst (publish_cycle s env) =
          [PublishSingle (GPS_TOPIC s)
             (json_dumps (PDict
                [(''logitude'', case map_of gps ''longitude'' of None \<Rightarrow> PNone | Some v \<Rightarrow> v),
                 (''latitude'', case map_of gps ''latitude'' of None \<Rightarrow> PNone | Some v \<Rightarrow> v)]))
             (MQTT_QOS s) (MQTT_SERVER s) (MQTT_PORT s),
           PublishMultiple
             [(MODEM_TEMP_TOPIC s,
               (case map_of temp_resp ''data'' of None \<Rightarrow> PStr '''' | Some v \<Rightarrow> v),
               MQTT_QOS s, False),
              (WAN_CONNECTION_STATE_TOPIC s,
               (case map_of wan_resp ''data'' of None \<Rightarrow> PNone | Some v \<Rightarrow> v),
               MQTT_QOS s, False)]
             (MQTT_SERVER s) (MQTT_PORT s)]
          @ (case multiple_raises env of
               None \<Rightarrow> [Sleep 10]
             | Some ex \<Rightarrow> [Log Error (''Exception in send_gps(). ex: '' @ exn_msg ex)])"
    using cycle_trace_to_batch by blast
next
  assume m: "PublishMultiple msgs host port \<in> set (fst (publish_cycle s env))"
  from batch_reached [OF m] obtain temp_resp' modem_temp wan_resp' wan payload where
    c1: "cs_get env (MODEM_TEMP_TOPIC s) = Inr temp_resp'"
    and g1: "py_get temp_resp' ''data'' (PStr '''') = Inr modem_temp"
    and c2: "cs_get env (WAN_CONNECTION_STATE_TOPIC s) = Inr wan_resp'"
    and g2: "py_get wan_resp' ''data'' PNone = Inr wan"
    and ms: "msgs = [(MODEM_TEMP_TOPIC s, modem_temp, MQTT_QOS s, False),
                     (WAN_CONNECTION_STATE_TOPIC s, wan, MQTT_QOS s, False)]"
    and hp: "host = MQTT_SERVER s" "port = MQTT_PORT s"
    and bp: "batch_publishes (fst (publish_cycle s env)) = [msgs]"
    and sp: "single_publishes (fst (publish_cycle s env)) = [(GPS_TOPIC s, payload)]"
    by blast
  from py_get_Inr [OF g1] obtain t where t: "temp_resp' = PDict t"
    and tv: "modem_temp = (case map_of t ''data'' of Some x \<Rightarrow> x | None \<Rightarrow> PStr '''')"
    by blast
  from py_get_Inr [OF g2] obtain w where w: "wan_resp' = PDict w"
    and wv: "wan = (case map_of w ''data'' of Some x \<Rightarrow> x | None \<Rightarrow> PNone)"
    by blast
  have tv': "modem_temp = (case map_of t ''data'' of None \<Rightarrow> PStr '''' | Some v \<Rightarrow> v)"
    using tv by (simp split: option.splits)
  have wv': "wan = (case map_of w ''data'' of None \<Rightarrow> PNone | Some v \<Rightarrow> v)"
    using wv by (simp split: option.splits)
  have m1: "cs_get env (MODEM_TEMP_TOPIC s) = Inr (PDict t)"
    using c1 t by simp
  have m2: "cs_get env (WAN_CONNECTION_STATE_TOPIC s) = Inr (PDict w)"
    using c2 w by simp
  have m3: "msgs = [(MODEM_TEMP_TOPIC s,
                     (case map_of t ''data'' of None \<Rightarrow> PStr '''' | Some v \<Rightarrow> v),
                     MQTT_QOS s, False),
                    (WAN_CONNECTION_STATE_TOPIC s,
                     (case map_of w ''data'' of None \<Rightarrow> PNone | Some v \<Rightarrow> v),
                     MQTT_QOS s, False)]"
    using ms tv' wv' by simp
  show "\<exists>t w payload.
           cs_get env (MODEM_TEMP_TOPIC s) = Inr (PDict t)
           \<and> cs_get env (WAN_CONNECTION_STATE_TOPIC s) = Inr (PDict w)
           \<and> msgs = [(MODEM_TEMP_TOPIC s,
                       (case map_of t ''data'' of None \<Rightarrow> PStr '''' | Some v \<Rightarrow> v),
                       MQTT_QOS s, False),
                      (WAN_CONNECTION_STATE_TOPIC s,
                       (case map_of w ''data'' of None \<Rightarrow> PNone | Some v \<Rightarrow> v),
                       MQTT_QOS s, False)]
           \<and> host = MQTT_SERVER s \<and> port = MQTT_PORT s
           \<and> batch_publishes (fst (publish_cycle s env)) = [msgs]
           \<and> single_publishes (fst (publish_cycle s env)) = [(GPS_TOPIC s, payload)]"
    using m1 m2 m3 hp bp sp by blast
qed

text \<open>
  The cycle with a fix: both parts apply, and the batch carries the temperature 41
  and the state \<open>connected\<close> that the data source handed out.
\<close>

theorem batch_single_call_not_retained_witness:
  "cs_get env_fix (GPS_TOPIC example_settings) =
     Inr (PDict [(''success'', PBool True),
                 (''data'', PDict [(''longitude'', PFloat ''-97.1''),
                                   (''latitude'', PFloat ''32.7'')])])
   \<and> single_raises env_fix = None
   \<and> cs_get env_fix (MODEM_TEMP_TOPIC example_settings) =
       Inr (PDict [(''success'', PBool True), (''data'', PInt 41)])
   \<and> cs_get env_fix (WAN_CONNECTION_STATE_TOPIC example_settings) =
       Inr (PDict [(''success'', PBool True), (''data'', PStr ''connected'')])
   \<and> fst (publish_cycle example_settings env_fix) =
       [PublishSingle ''status/gps/lastpos'' ''{\"logitude\": -97.1, \"latitude\": 32.7}'' 0
          ''test.mosquitto.org'' 1883,
        PublishMultiple [(''status/system/modem_temperature'', PInt 41, 0, False),
                         (''status/wan/connection_state'', PStr ''connected'', 0, False)]
          ''test.mosquitto.org'' 1883,
        Sleep 10]
   \<and> PublishMultiple [(''status/system/modem_temperature'', PInt 41, 0, False),
                      (''status/wan/connection_state'', PStr ''connected'', 0, False)]
        ''test.mosquitto.org'' 1883 \<in> set (fst (publish_cycle example_settings env_fix))
   \<and> batch_publishes (fst (publish_cycle example_settings env_fix)) =
       [[(''status/system/modem_temperature'', PInt 41, 0, False),
         (''status/wan/connection_state'', PStr ''connected'', 0, False)]]"
proof -
  note both = batch_single_call_not_retained [of env_fix example_settings
      "[(''success'', PBool True),
        (''data'', PDict [(''longitude'', PFloat ''-97.1''), (''latitude'', PFloat ''32.7'')])]"
      "[(''longitude'', PFloat ''-97.1''), (''latitude'', PFloat ''32.7'')]"
      "[(''success'', PBool True), (''data'', PInt 41)]"
      "[(''success'', PBool True), (''data'', PStr ''connected'')]"
      "[(''status/system/modem_temperature'', PInt 41, 0, False),
        (''status/wan/connection_state'', PStr ''connected'', 0, False)]"
      "''test.mosquitto.org''" 1883]
  have g: "cs_get env_fix (GPS_TOPIC example_settings) =
     Inr (PDict [(''success'', PBool True),
                 (''data'', PDict [(''longitude'', PFloat ''-97.1''),
                                   (''latitude'', PFloat ''32.7'')])])"
    by (simp add: example_defs)
  have d: "map_of [(''success'', PBool True),
                   (''data'', PDict [(''longitude'', PFloat ''-97.1''),
                                     (''latitude'', PFloat ''32.7'')])] ''data'' =
             Some (PDict [(''longitude'', PFloat ''-97.1''), (''latitude'', PFloat ''32.7'')])"
    by simp
  have sr: "single_raises env_fix = None"
    by (simp add: env_fix_def)
  have t: "cs_get env_fix (MODEM_TEMP_TOPIC example_settings) =
       Inr (PDict [(''success'', PBool True), (''data'', PInt 41)])"
    by (simp add: example_defs)
  have w: "cs_get env_fix (WAN_CONNECTION_STATE_TOPIC example_settings) =
       Inr (PDict [(''success'', PBool True), (''data'', PStr ''connected'')])"
    by (simp add: example_defs)
  from both [THEN conjunct1, THEN mp,
      OF conjI [OF g conjI [OF d conjI [OF sr conjI [OF t w]]]]]
  have "fst (publish_cycle example_settings env_fix) =
          [PublishSingle (GPS_TOPIC example_settings)
             (json_dumps (PDict
                [(''logitude'', case map_of [(''longitude'', PFloat ''-97.1''), (''latitude'', PFloat ''32.7'')] ''longitude'' of None \<Rightarrow> PNone | Some v \<Rightarrow> v),
                 (''latitude'', case map_of [(''longitude'', PFloat ''-97.1''), (''latitude'', PFloat ''32.7'')] ''latitude'' of None \<Rightarrow> PNone | Some v \<Rightarrow> v)]))
             (MQTT_QOS example_settings) (MQTT_SERVER example_settings) (MQTT_PORT example_settings),
           PublishMultiple
             [(MODEM_TEMP_TOPIC example_settings,
               (case map_of [(''success'', PBool True), (''data'', PInt 41)] ''data'' of None \<Rightarrow> PStr '''' | Some v \<Rightarrow> v),
               MQTT_QOS example_settings, False),
              (WAN_CONNECTION_STATE_TOPIC example_settings,
               (case map_of [(''success'', PBool True), (''data'', PStr ''connected'')] ''data'' of None \<Rightarrow> PNone | Some v \<Rightarrow> v),
               MQTT_QOS example_settings, False)]
             (MQTT_SERVER example_settings) (MQTT_PORT example_settings)]
          @ (case multiple_raises env_fix of
               None \<Rightarrow> [Sleep 10]
             | Some ex \<Rightarrow> [Log Error (''Exception in send_gps(). ex: '' @ exn_msg ex)])"
    .
  then have tr: "fst (publish_cycle example_settings env_fix) =
       [PublishSingle ''status/gps/lastpos'' ''{\"logitude\": -97.1, \"latitude\": 32.7}'' 0
          ''test.mosquitto.org'' 1883,
        PublishMultiple [(''status/system/modem_temperature'', PInt 41, 0, False),
                         (''status/wan/connection_state'', PStr ''connected'', 0, False)]
          ''test.mosquitto.org'' 1883,
        Sleep 10]"
    by (simp add: example_settings_def env_fix_def json_string_def json_escape_def json_float_def)
  have m: "PublishMultiple [(''status/system/modem_temperature'', PInt 41, 0, False),
                            (''status/wan/connection_state'', PStr ''connected'', 0, False)]
             ''test.mosquitto.org'' 1883 \<in> set (fst (publish_cycle example_settings env_fix))"
    by (simp add: tr)
  have bp: "batch_publishes (fst (publish_cycle example_settings env_fix)) =
       [[(''status/system/modem_temperature'', PInt 41, 0, False),
         (''status/wan/connection_state'', PStr ''connected'', 0, False)]]"
    by (simp add: tr)
  from g sr t w tr m bp show ?thesis
    by (intro conjI)
qed

text \<open>
  C7. The two reads treat a missing \<open>data\<close> field differently. In every cycle that
  gets as far as the two reads, the modem temperature is the \<open>data\<close> field of its
  answer, or the empty string when the answer has none; the WAN connection state is
  the \<open>data\<close> field of its answer, or \<open>None\<close> when the answer has none. Each read
  follows its own rule whatever the other answer holds, and these are the values the
  batch carries.
\<close>

theorem modem_temp_default_wan_none:
  assumes "cs_get env (GPS_TOPIC s) = Inr (PDict resp)"
    and "map_of resp ''data'' = Some (PDict gps)"
    and "single_raises env = None"
    and "cs_get env (MODEM_TEMP_TOPIC s) = Inr (PDict temp_resp)"
    and "cs_get env (WAN_CONNECTION_STATE_TOPIC s) = Inr (PDict wan_resp)"
  shows "batch_publishes (fst (publish_cycle s env)) =
           [[(MODEM_TEMP_TOPIC s,
              (case map_of temp_resp ''data'' of
                 None \<Rightarrow> PStr '''' | Some modem_temp \<Rightarrow> modem_temp),
              MQTT_QOS s, False),
             (WAN_CONNECTION_STATE_TOPIC s,
              (case map_of wan_resp ''data'' of
                 None \<Rightarrow> PNone | Some wan_connection_state \<Rightarrow> wan_connection_state),
              MQTT_QOS s, False)]]"
  using assms
  by (simp add: body_defs py_get_dict split: option.splits)

text \<open>
  Three cycles: both answers without \<open>data\<close>; only the modem temperature without
  it; both with it.
\<close>

theorem modem_temp_default_wan_none_witness:
  "cs_get env_no_data (MODEM_TEMP_TOPIC example_settings) =
     Inr (PDict [(''success'', PBool False)])
   \<and> cs_get env_no_data (WAN_CONNECTION_STATE_TOPIC example_settings) =
     Inr (PDict [(''success'', PBool False)])
   \<and> batch_publishes (fst (publish_cycle example_settings env_no_data)) =
       [[(''status/system/modem_temperature'', PStr '''', 0, False),
         (''status/wan/connection_state'', PNone, 0, False)]]
   \<and> cs_get env_no_temp (MODEM_TEMP_TOPIC example_settings) =
     Inr (PDict [(''success'', PBool False)])
   \<and> cs_get env_no_temp (WAN_CONNECTION_STATE_TOPIC example_settings) =
     Inr (PDict [(''success'', PBool True), (''data'', PStr ''connected'')])
   \<and> batch_publishes (fst (publish_cycle example_settings env_no_temp)) =
       [[(''status/system/modem_temperature'', PStr '''', 0, False),
         (''status/wan/connection_state'', PStr ''connected'', 0, False)]]
   \<and> batch_publishes (fst (publish_cycle example_settings env_fix)) =
       [[(''status/system/modem_temperature'', PInt 41, 0, False),
         (''status/wan/connection_state'', PStr ''connected'', 0, False)]]"
  using modem_temp_default_wan_none [of env_no_data example_settings
      "[(''success'', PBool True), (''data'', PDict [(''age'', PInt 3)])]"
      "[(''age'', PInt 3)]" "[(''success'', PBool False)]" "[(''success'', PBool False)]"]
    modem_temp_default_wan_none [of env_no_temp example_settings
      "[(''success'', PBool True),
        (''data'', PDict [(''longitude'', PFloat ''-97.1''), (''latitude'', PFloat ''32.7'')])]"
      "[(''longitude'', PFloat ''-97.1''), (''latitude'', PFloat ''32.7'')]"
      "[(''success'', PBool False)]"
      "[(''success'', PBool True), (''data'', PStr ''connected'')]"]
    modem_temp_default_wan_none [of env_fix example_settings
      "[(''success'', PBool True),
        (''data'', PDict [(''longitude'', PFloat ''-97.1''), (''latitude'', PFloat ''32.7'')])]"
      "[(''longitude'', PFloat ''-97.1''), (''latitude'', PFloat ''32.7'')]"
      "[(''success'', PBool True), (''data'', PInt 41)]"
      "[(''success'', PBool True), (''data'', PStr ''connected'')]"]
  by (simp add: example_defs env_no_temp_def cs_get_no_temp_def)

text \<open>
  C9. The batch call is made only in a cycle whose GPS read went through (the answer
  for the GPS key is a dictionary with a dictionary under \<open>data\<close>) and whose GPS
  single-shot publish returned without raising; in the trace the GPS publish comes
  first and the batch call right after it.
\<close>

theorem batch_needs_gps_publish:
  assumes "PublishMultiple msgs host port \<in> set (fst (publish_cycle s env))"
  shows "(\<exists>resp gps. cs_get env (GPS_TOPIC s) = Inr (PDict resp)
            \<and> map_of resp ''data'' = Some (PDict gps))
         \<and> single_raises env = None
         \<and> (\<exists>payload rest. fst (publish_cycle s env) =
              PublishSingle (GPS_TOPIC s) payload (MQTT_QOS s) (MQTT_SERVER s) (MQTT_PORT s)
              # PublishMultiple msgs host port # rest)"
  using assms
  by (auto simp: body_defs split: sum.splits option.splits dest: gps_read)

theorem batch_needs_gps_publish_witness:
  "PublishMultiple [(''status/system/modem_temperature'', PInt 41, 0, False),
                    (''status/wan/connection_state'', PStr ''connected'', 0, False)]
     ''test.mosquitto.org'' 1883 \<in> set (fst (publish_cycle example_settings env_fix))
   \<and> single_raises env_fix = None
   \<and> hd (fst (publish_cycle example_settings env_fix)) =
       PublishSingle ''status/gps/lastpos'' ''{\"logitude\": -97.1, \"latitude\": 32.7}'' 0
         ''test.mosquitto.org'' 1883"
proof -
  have m: "PublishMultiple [(''status/system/modem_temperature'', PInt 41, 0, False),
                            (''status/wan/connection_state'', PStr ''connected'', 0, False)]
             ''test.mosquitto.org'' 1883 \<in> set (fst (publish_cycle example_settings env_fix))"
    by (simp add: run_defs example_defs)
  have h: "hd (fst (publish_cycle example_settings env_fix)) =
             PublishSingle ''status/gps/lastpos'' ''{\"logitude\": -97.1, \"latitude\": 32.7}'' 0
               ''test.mosquitto.org'' 1883"
    by (simp add: run_defs example_defs)
  from batch_needs_gps_publish [OF m] show ?thesis using m h by simp
qed

section \<open>The loop and its failures\<close>

text \<open>
  C3. An exception raised by a read or a publish step is caught in the iteration and
  logged, and none leaves the loop: run for \<open>n\<close> iterations, the loop starts all
  \<open>n\<close> of them, each in its own environment, whatever the earlier ones met; a
  body that raises \<open>ex\<close> ends its iteration with the error line for \<open>ex\<close>.
\<close>

theorem publisher_survives_failed_cycle:
  "while_true s envs i n = (map (\<lambda>k. fst (publish_cycle s (envs k))) [i..<i + n], None)
   \<and> snd (publish_thread s envs n) = None
   \<and> (snd (try_body s env) = Inl ex \<longrightarrow>
        publish_cycle s env =
          (fst (try_body s env) @
           [Log Error (''Exception in send_gps(). ex: '' @ exn_msg ex)], None))"
  by (simp add: while_true_runs publish_thread_def publish_cycle_def
      split: prod.splits sum.splits)

text \<open>
  The data source answers \<open>None\<close> for the GPS key in the first cycle: line 94 raises
  \<open>AttributeError\<close>, the handler logs it, and the second cycle publishes.
\<close>

theorem publisher_survives_failed_cycle_witness:
  "snd (try_body example_settings env_absent) = Inl (no_attribute PNone ''get'')
   \<and> while_true example_settings absent_then_fix 0 2 =
       ([[Log Error (''Exception in send_gps(). ex: '' @ exn_msg (no_attribute PNone ''get''))],
         [PublishSingle ''status/gps/lastpos'' ''{\"logitude\": -97.1, \"latitude\": 32.7}'' 0
            ''test.mosquitto.org'' 1883,
          PublishMultiple [(''status/system/modem_temperature'', PInt 41, 0, False),
                           (''status/wan/connection_state'', PStr ''connected'', 0, False)]
            ''test.mosquitto.org'' 1883,
          Sleep 10]], None)"
proof -
  have r: "[0..<0 + 2] = [0, Suc 0]"
    by (simp add: upt_rec)
  show ?thesis
    using publisher_survives_failed_cycle [of example_settings absent_then_fix 0 2
        env_absent "no_attribute PNone ''get''"]
    by (simp add: r absent_then_fix_def run_defs example_defs)
qed

text \<open>
  C2. The claim is that every iteration, also one in which a step raises, completes
  the 10-second sleep before the next one begins. In the code \<open>time.sleep(10)\<close> is
  the last statement inside the \<open>try\<close>, so an iteration that raises goes from the
  handler straight into the next iteration. With a data source that answers \<open>None\<close>
  for every key, two iterations in a row log the error and sleep for no second at
  all; with one that answers the GPS key only, the GPS message is published twice
  with no sleep in between.
\<close>

theorem failed_cycle_skips_sleep:
  "while_true example_settings always_absent 0 2 =
     ([[Log Error (''Exception in send_gps(). ex: '' @ exn_msg (no_attribute PNone ''get''))],
       [Log Error (''Exception in send_gps(). ex: '' @ exn_msg (no_attribute PNone ''get''))]],
      None)
   \<and> slept (concat (fst (while_true example_settings always_absent 0 2))) = 0
   \<and> single_publishes (concat (fst (while_true example_settings always_gps_only 0 2))) =
       [(''status/gps/lastpos'', ''{\"logitude\": -97.1, \"latitude\": 32.7}''),
        (''status/gps/lastpos'', ''{\"logitude\": -97.1, \"latitude\": 32.7}'')]
   \<and> slept (concat (fst (while_true example_settings always_gps_only 0 2))) = 0"
  by (simp add: numeral_2_eq_2 always_absent_def always_gps_only_def run_defs example_defs)

section \<open>The connect handler\<close>

text \<open>
  C4. On a successful connect (result code \<open>CONNACK_ACCEPTED\<close>) the handler makes
  exactly one subscribe call, for the three topics \<open>GPS_TOPIC\<close>,
  \<open>MODEM_TEMP_TOPIC\<close> and \<open>WAN_CONNECTION_STATE_TOPIC\<close>, each at \<open>MQTT_QOS\<close>.
\<close>

theorem on_connect_subscribes_once:
  "subscribes (fst (on_connect s sub_raises CONNACK_ACCEPTED)) =
     [[(GPS_TOPIC s, MQTT_QOS s),
       (MODEM_TEMP_TOPIC s, MQTT_QOS s),
       (WAN_CONNECTION_STATE_TOPIC s, MQTT_QOS s)]]"
  by (simp add: on_connect_def Let_def split: option.splits)

theorem on_connect_subscribes_once_witness:
  "subscribes (fst (on_connect example_settings None CONNACK_ACCEPTED)) =
     [[(''status/gps/lastpos'', 0), (''status/system/modem_temperature'', 0),
       (''status/wan/connection_state'', 0)]]"
  using on_connect_subscribes_once [of example_settings None]
  by (simp add: example_settings_def)




text \<open>
  C8. When the subscribe call raises, the handler catches the exception, logs it and
  returns normally: after the subscribe call the trace holds the error line and
  nothing more, and no exception leaves the handler.
\<close>

theorem on_connect_swallows_subscribe_error:
  "on_connect s (Some ex) rc =
     ([Log Debug (''MQTT Client connection results: '' @ connack_string rc),
       Subscribe [(GPS_TOPIC s, MQTT_QOS s),
                  (MODEM_TEMP_TOPIC s, MQTT_QOS s),
                  (WAN_CONNECTION_STATE_TOPIC s, MQTT_QOS s)],
       Log Error (''Client Subscribe exception. ex='' @ exn_msg ex)], None)"
  by (simp add: on_connect_def Let_def)

theorem on_connect_swallows_subscribe_error_witness:
  "on_connect example_settings (Some (Exn ''ValueError'' ''Invalid topic.'')) 0 =
     ([Log Debug ''MQTT Client connection results: Connection Accepted.'',
       Subscribe [(''status/gps/lastpos'', 0), (''status/system/modem_temperature'', 0),
                  (''status/wan/connection_state'', 0)],
       Log Error ''Client Subscribe exception. ex=Invalid topic.''], None)"
  using on_connect_swallows_subscribe_error
      [of example_settings "Exn ''ValueError'' ''Invalid topic.''" 0]
  by (simp add: example_defs)

end
